theory Spec2Isabelle
  imports Complex_Main
begin

section \<open>Numbers\<close>

text \<open>
  JavaScript numbers are modelled as exact reals. The one place where the source can leave
  the finite numbers is the division of \<open>calculateLinearRegression\<close> (and the average of an
  empty array), so a division returns a \<open>jsnum\<close>: a finite number, or one of the three
  non-finite values that \<open>a / 0\<close> has in JavaScript. NDVI values read from the samples are
  finite (the schema of \<open>NDVIData\<close> bounds them by -1 and 1).
  The rounding of each arithmetic result to a double is not modelled.
\<close>

datatype jsnum = Num real | NaN | PosInf | NegInf

definition js_div :: "real \<Rightarrow> real \<Rightarrow> jsnum" where
  "js_div a b =
     (if b \<noteq> 0 then Num (a / b)
      else if a = 0 then NaN
      else if 0 < a then PosInf else NegInf)"

text \<open>\<open>t < c\<close> for a finite constant \<open>c\<close>: false for NaN, true for -Infinity.\<close>

fun js_lt :: "jsnum \<Rightarrow> real \<Rightarrow> bool" where
  "js_lt (Num a) c = (a < c)"
| "js_lt NaN c = False"
| "js_lt PosInf c = False"
| "js_lt NegInf c = True"

text \<open>\<open>a + t * i\<close> for finite \<open>a\<close> and a finite \<open>i > 0\<close>, as the forecast loop computes it.\<close>

fun js_add_mul :: "real \<Rightarrow> jsnum \<Rightarrow> real \<Rightarrow> jsnum" where
  "js_add_mul a (Num t) i = Num (a + t * i)"
| "js_add_mul a NaN i = NaN"
| "js_add_mul a PosInf i = PosInf"
| "js_add_mul a NegInf i = NegInf"

text \<open>\<open>Math.max(0, Math.min(1, p + r))\<close> for a finite \<open>r\<close>; NaN stays NaN.\<close>

fun js_clamp01 :: "jsnum \<Rightarrow> real \<Rightarrow> jsnum" where
  "js_clamp01 (Num p) r = Num (max 0 (min 1 (p + r)))"
| "js_clamp01 NaN r = NaN"
| "js_clamp01 PosInf r = Num 1"
| "js_clamp01 NegInf r = Num 0"

section \<open>NDVI samples and the trend (AIStressDetector)\<close>

record ndvi_sample =
  date :: int
  ndvi :: real

record point =
  pt_x :: real
  pt_y :: real

text \<open>\<open>ndviData[ndviData.length - 1]?.ndvi || 0\<close>: the last element of the array; 0 for an
  empty array and for a falsy (zero) value.\<close>

definition latestNDVI :: "ndvi_sample list \<Rightarrow> real" where
  "latestNDVI ndviData =
     (case ndviData of
        [] \<Rightarrow> 0
      | _ # _ \<Rightarrow> (if ndvi (last ndviData) = 0 then 0 else ndvi (last ndviData)))"

text \<open>\<open>ndviData.reduce((sum, d) => sum + d.ndvi, 0) / ndviData.length\<close>.\<close>

definition avgNDVI :: "ndvi_sample list \<Rightarrow> jsnum" where
  "avgNDVI ndviData =
     js_div (foldl (\<lambda>sum d. sum + ndvi d) 0 ndviData) (real (length ndviData))"

text \<open>The denominator of the least-squares slope, \<open>n * sumX2 - sumX * sumX\<close>.\<close>

definition regressionDenominator :: "point list \<Rightarrow> real" where
  "regressionDenominator points =
     (let n = real (length points);
          sumX = foldl (\<lambda>sum p. sum + pt_x p) 0 points;
          sumX2 = foldl (\<lambda>sum p. sum + pt_x p * pt_x p) 0 points
      in n * sumX2 - sumX * sumX)"

definition calculateLinearRegression :: "point list \<Rightarrow> jsnum" where
  "calculateLinearRegression points =
     (let n = real (length points);
          sumX = foldl (\<lambda>sum p. sum + pt_x p) 0 points;
          sumY = foldl (\<lambda>sum p. sum + pt_y p) 0 points;
          sumXY = foldl (\<lambda>sum p. sum + pt_x p * pt_y p) 0 points
      in js_div (n * sumXY - sumX * sumY) (regressionDenominator points))"

text \<open>\<open>ndviData.slice(-5)\<close>: the last five elements, all of them when there are fewer.\<close>

definition sliceLast5 :: "'a list \<Rightarrow> 'a list" where
  "sliceLast5 xs = drop (length xs - 5) xs"

text \<open>\<open>recent.map((d, i) => ({x: i, y: d.ndvi}))\<close>.\<close>

definition regressionPoints :: "ndvi_sample list \<Rightarrow> point list" where
  "regressionPoints recent =
     map (\<lambda>(i, d). \<lparr>pt_x = real i, pt_y = ndvi d\<rparr>) (enumerate 0 recent)"

definition calculateNDVITrend :: "ndvi_sample list \<Rightarrow> jsnum" where
  "calculateNDVITrend ndviData =
     (if length ndviData < 2 then Num 0
      else let recent = sliceLast5 ndviData
           in if length recent < 2 then Num 0
              else calculateLinearRegression (regressionPoints recent))"

section \<open>Rule-based stress classification (AIStressDetector.analyzeWithRules)\<close>

definition levels :: "string list" where
  "levels = [''healthy'', ''low'', ''moderate'', ''high'', ''severe'']"

text \<open>\<open>Array.prototype.indexOf\<close>: the first index of the value, -1 when it is absent.\<close>

fun indexOf :: "'a list \<Rightarrow> 'a \<Rightarrow> int" where
  "indexOf [] v = -1"
| "indexOf (a # as) v =
     (if a = v then 0
      else (let r = indexOf as v in if r < 0 then -1 else r + 1))"

definition upgradeStressLevel :: "string \<Rightarrow> string" where
  "upgradeStressLevel currentLevel =
     (let currentIndex = indexOf levels currentLevel
      in levels ! nat (min (currentIndex + 1) (int (length levels) - 1)))"

record analysis =
  stressLevel :: string
  confidence :: real
  recommendations :: "string list"
  ndviCurrent :: real
  ndviAverage :: jsnum
  ndviTrend :: jsnum
  aiModel :: string
  riskFactors :: "string list option"
  analysisText :: "string option"

text \<open>The threshold chain of \<open>analyzeWithRules\<close> (its lines before the trend adjustment):
  the stress level, the confidence and the recommendations fixed by \<open>latestNDVI\<close>.\<close>

definition rulesBase :: "real \<Rightarrow> string \<times> real \<times> string list" where
  "rulesBase latest =
     (if latest < 0.2 then
        (''severe'', 0.9, [''Immediate irrigation required'', ''Check for pest infestation''])
      else if latest < 0.3 then
        (''high'', 0.8, [''Increase irrigation frequency'', ''Apply balanced fertilizer''])
      else if latest < 0.4 then
        (''moderate'', 0.7, [''Monitor closely'', ''Consider light irrigation''])
      else (''healthy'', 0.8, []))"

definition baseStressLevel :: "ndvi_sample list \<Rightarrow> string" where
  "baseStressLevel ndviData = fst (rulesBase (latestNDVI ndviData))"

definition analyzeWithRules :: "ndvi_sample list \<Rightarrow> analysis" where
  "analyzeWithRules ndviData =
     (let latest = latestNDVI ndviData;
          avg = avgNDVI ndviData;
          trend = calculateNDVITrend ndviData;
          (level, conf, recs) = rulesBase latest;
          escalate = js_lt trend (- 0.05)
      in \<lparr>stressLevel = (if escalate then upgradeStressLevel level else level),
          confidence = conf,
          recommendations =
            (if escalate then recs @ [''Declining health trend detected''] else recs),
          ndviCurrent = latest,
          ndviAverage = avg,
          ndviTrend = trend,
          aiModel = ''rule-based-fallback'',
          riskFactors = None,
          analysisText = None\<rparr>)"

section \<open>Forecast (AIStressDetector.generateStressForecast)\<close>

record forecast_point =
  fp_date :: int
  predictedNDVI :: jsnum
  fp_stressLevel :: string
  fp_confidence :: real

record forecast_result =
  forecast :: "forecast_point list"
  fr_confidence :: real
  fr_method :: string
  fr_trend :: "jsnum option"
  currentNDVI :: "real option"

definition forecastLevel :: "jsnum \<Rightarrow> string" where
  "forecastLevel finalNDVI =
     (if js_lt finalNDVI 0.2 then ''severe''
      else if js_lt finalNDVI 0.3 then ''high''
      else if js_lt finalNDVI 0.4 then ''moderate''
      else if js_lt finalNDVI 0.5 then ''low''
      else ''healthy'')"

text \<open>One pass of the loop body for day \<open>i\<close>. \<open>today\<close> is the day number of \<open>new Date()\<close>,
  \<open>mathRandom i\<close> the value \<open>Math.random()\<close> returns in that pass. The horizon \<open>days\<close> is an
  integer (the callers pass 14, 7 or \<open>parseInt(days)\<close>).\<close>

definition forecastDay ::
  "int \<Rightarrow> (int \<Rightarrow> real) \<Rightarrow> real \<Rightarrow> jsnum \<Rightarrow> int \<Rightarrow> int \<Rightarrow> forecast_point" where
  "forecastDay today mathRandom lastNDVI trend days i =
     (let predicted = js_add_mul lastNDVI trend (real_of_int i);
          randomVariation = (mathRandom i - 0.5) * 0.05;
          finalNDVI = js_clamp01 predicted randomVariation;
          dayConfidence = max 0.5 (0.9 - (real_of_int i / real_of_int days) * 0.4)
      in \<lparr>fp_date = today + i,
          predictedNDVI = finalNDVI,
          fp_stressLevel = forecastLevel finalNDVI,
          fp_confidence = dayConfidence\<rparr>)"

text \<open>\<open>for (let i = 1; i <= days; i++) forecast.push(...)\<close>, started at \<open>i = 1\<close> with the
  empty array.\<close>

function forecastLoop ::
  "(int \<Rightarrow> forecast_point) \<Rightarrow> int \<Rightarrow> int \<Rightarrow> forecast_point list \<Rightarrow> forecast_point list" where
  "forecastLoop body days i acc =
     (if i \<le> days then forecastLoop body days (i + 1) (acc @ [body i]) else acc)"
  by pat_completeness auto
termination
  by (relation "measure (\<lambda>(body, days, i, acc). nat (days + 1 - i))") auto

declare forecastLoop.simps [simp del]

text \<open>The \<open>catch\<close> branch of the source (method \<open>error\<close>) needs a throwing statement in the
  body; on an array of samples there is none, so the model has two outcomes.\<close>

definition generateStressForecast ::
  "int \<Rightarrow> (int \<Rightarrow> real) \<Rightarrow> ndvi_sample list \<Rightarrow> int \<Rightarrow> forecast_result" where
  "generateStressForecast today mathRandom ndviData days =
     (if length ndviData < 3 then
        \<lparr>forecast = [], fr_confidence = 0, fr_method = ''insufficient_data'',
         fr_trend = None, currentNDVI = None\<rparr>
      else
        (let trend = calculateNDVITrend ndviData;
             lastNDVI = ndvi (last ndviData)
         in \<lparr>forecast = forecastLoop (forecastDay today mathRandom lastNDVI trend days) days 1 [],
             fr_confidence = 1,
             fr_method = ''linear_regression'',
             fr_trend = Some trend,
             currentNDVI = Some lastNDVI\<rparr>))"

section \<open>Alert service (AlertService)\<close>

text \<open>
  A document id as the JavaScript code holds it: a string (the route parameter
  \<open>req.params.farmId\<close>), or an \<open>ObjectId\<close> object, given by the identity of the object and
  its hex value. The keys of a \<open>Map\<close> are compared as JavaScript compares them: two strings
  by their characters, two objects by identity, and a string never equals an object. With
  one identity per object, that comparison is the equality of this datatype.
\<close>

datatype js_id = IdString string | IdObject nat string

fun idValue :: "js_id \<Rightarrow> string" where
  "idValue (IdString s) = s"
| "idValue (IdObject r v) = v"

text \<open>A farm as the collection stores it, under its id value, and as \<open>Farm.findById\<close> hands
  it to the caller: the document with its \<open>_id\<close>, an \<open>ObjectId\<close> object made for this
  document instance. The \<open>Farm\<close> schema declares no path for the last analysis.\<close>

record farm =
  farm_name :: string
  farm_owner :: string
  farm_isActive :: bool

record farm_doc = farm +
  farm_uid :: js_id

text \<open>The \<open>User\<close> model is not part of the sources read here; \<open>phoneNumber\<close> is optional
  (\<open>None\<close> is \<open>undefined\<close>).\<close>

record user =
  user_uid :: string
  fullName :: string
  phoneNumber :: "string option"
  user_isActive :: bool

record ndvi_doc =
  doc_farm :: string
  doc_sample :: ndvi_sample

record cache_entry =
  ce_timestamp :: int
  ce_stressLevel :: string
  ce_messageId :: "string option"

text \<open>The object an SMS call resolves to: \<open>{success: true, messageId}\<close> or
  \<open>{success: false, error}\<close>.\<close>

datatype sms_result = SmsOk "string option" | SmsFail string

fun sms_success :: "sms_result \<Rightarrow> bool" where
  "sms_success (SmsOk _) = True"
| "sms_success (SmsFail _) = False"

fun sms_messageId :: "sms_result \<Rightarrow> string option" where
  "sms_messageId (SmsOk m) = m"
| "sms_messageId (SmsFail _) = None"

record alert =
  al_farmId :: string
  al_userId :: string
  al_stressLevel :: string
  al_confidence :: real
  al_ndviValue :: real
  al_recommendations :: "string list"
  al_riskFactors :: "string list"
  al_aiAnalysis :: "string option"
  al_alertType :: string
  al_status :: string
  al_sentAt :: "int option"
  al_phoneNumber :: "string option"
  al_message :: string
  al_urgency :: string

text \<open>
  What the service reads from outside during one call: whether the LLM key is configured
  and what \<open>analyzeWithHuaweiLLM\<close> resolves to (\<open>None\<close> is \<open>null\<close>), the random source, the
  clock at the three places that read it, the SMS gateway behind \<open>createCustomAlert\<close>, the
  text rendering of \<open>generateAlertMessage\<close> (number formatting is not modelled), and the
  database driver: the identity of the \<open>ObjectId\<close> object that \<open>Farm.findById\<close> makes for
  the document it returns in this call, the message of the error each of the three reads
  throws when it throws (a \<open>CastError\<close> for a farm id that is no ObjectId string, a lost
  connection; \<open>None\<close> when the read returns), and \<open>findOneAndUpdate\<close> with \<open>upsert\<close> on the
  NDVI collection.
\<close>

record env =
  apiKeySet :: bool
  huaweiLLM :: "ndvi_sample list \<Rightarrow> analysis option"
  mathRandom :: "int \<Rightarrow> real"
  today :: int
  clockGuard :: int
  clockSend :: int
  clockStore :: int
  smsGateway :: "string \<Rightarrow> string \<Rightarrow> string \<Rightarrow> sms_result"
  renderMessage :: "string \<Rightarrow> string \<Rightarrow> analysis \<Rightarrow> string"
  farmDocObject :: nat
  farmFindError :: "js_id \<Rightarrow> string option"
  userFindError :: "string \<Rightarrow> string option"
  ndviFindError :: "js_id \<Rightarrow> string option"
  upsertForecast :: "ndvi_doc list \<Rightarrow> string \<Rightarrow> analysis \<Rightarrow> forecast_point \<Rightarrow> ndvi_doc list"

text \<open>The collections of the database, the cooldown cache of one \<open>AlertService\<close> object (a
  \<open>Map\<close>, empty when the object is made), and the log of the requests handed to the SMS
  gateway (recipient, text, urgency).\<close>

record system =
  farms :: "string \<rightharpoonup> farm"
  users :: "string \<rightharpoonup> user"
  ndviDocs :: "ndvi_doc list"
  alerts :: "alert list"
  stressCache :: "js_id \<rightharpoonup> cache_entry"
  smsLog :: "(string \<times> string \<times> string) list"

definition alertCooldown :: int where
  "alertCooldown = 24 * 60 * 60 * 1000"

text \<open>\<open>Farm.findById(farmId)\<close> when it returns: the stored farm with that id value, loaded
  as a document whose \<open>_id\<close> is a new object.\<close>

definition findFarmById :: "env \<Rightarrow> system \<Rightarrow> js_id \<Rightarrow> farm_doc option" where
  "findFarmById e st farmId =
     (case farms st (idValue farmId) of
        None \<Rightarrow> None
      | Some f \<Rightarrow>
          Some \<lparr>farm_name = farm_name f, farm_owner = farm_owner f,
                farm_isActive = farm_isActive f,
                farm_uid = IdObject (farmDocObject e) (idValue farmId)\<rparr>)"

text \<open>\<open>NDVIData.find({farm: farmId}).sort({date: -1}).limit(30)\<close>.\<close>

definition findNDVI :: "system \<Rightarrow> js_id \<Rightarrow> ndvi_sample list" where
  "findNDVI st farmId =
     take 30 (sort_key (\<lambda>d. - date d)
       (map doc_sample (filter (\<lambda>d. doc_farm d = idValue farmId) (ndviDocs st))))"

text \<open>\<open>detectCropStress\<close>: the LLM first when a key is set, the rules when it yields
  \<open>null\<close> or no key is set.\<close>

definition detectCropStress :: "env \<Rightarrow> ndvi_sample list \<Rightarrow> analysis" where
  "detectCropStress e ndviData =
     (if apiKeySet e then
        (case huaweiLLM e ndviData of
           Some aiResult \<Rightarrow> aiResult
         | None \<Rightarrow> analyzeWithRules ndviData)
      else analyzeWithRules ndviData)"

text \<open>\<open>shouldSendAlert(farmId, analysis)\<close>: \<open>this.stressCache.get(farmId)\<close> looks the
  argument up as a key of the \<open>Map\<close>.\<close>

definition shouldSendAlert :: "env \<Rightarrow> system \<Rightarrow> js_id \<Rightarrow> analysis \<Rightarrow> bool" where
  "shouldSendAlert e st farmId a =
     (if stressLevel a = ''healthy'' \<or> stressLevel a = ''low'' then False
      else if (case stressCache st farmId of
                 None \<Rightarrow> False
               | Some lastAlert \<Rightarrow> clockGuard e - ce_timestamp lastAlert < alertCooldown)
           then False
      else if confidence a < 0.7 then False
      else True)"

definition getUrgencyLevel :: "string \<Rightarrow> string" where
  "getUrgencyLevel level =
     (if level = ''severe'' then ''urgent''
      else if level = ''high'' then ''high''
      else if level = ''moderate'' then ''normal''
      else if level = ''low'' then ''low''
      else ''normal'')"

text \<open>\<open>SMSService.validatePhoneNumber\<close> and \<open>formatPhoneNumber\<close> with the default country
  code.\<close>

definition validatePhoneNumber :: "string \<Rightarrow> string option" where
  "validatePhoneNumber phone =
     (let cleanNumber = filter (\<lambda>c. c \<in> set ''0123456789'') phone
      in if 10 \<le> length cleanNumber \<and> length cleanNumber \<le> 15 then Some cleanNumber
         else None)"

definition formatPhoneNumber :: "string \<Rightarrow> string option" where
  "formatPhoneNumber phone =
     (case validatePhoneNumber phone of
        None \<Rightarrow> None
      | Some cleanNumber \<Rightarrow>
          (if take 1 cleanNumber = ''+'' then Some cleanNumber
           else if take 1 cleanNumber = ''0'' then Some (''+62'' @ drop 1 cleanNumber)
           else Some (''+62'' @ cleanNumber)))"

text \<open>\<open>sendAlert(farmer, farm, analysis)\<close>: an undefined phone number makes \<open>replace\<close> throw,
  which the \<open>catch\<close> turns into a failed result. After a successful send,
  \<open>this.stressCache.set(farm._id, ...)\<close> writes the cache under the \<open>_id\<close> object of the
  loaded document.\<close>

definition sendAlert ::
  "env \<Rightarrow> system \<Rightarrow> user \<Rightarrow> farm_doc \<Rightarrow> analysis \<Rightarrow> sms_result \<times> system" where
  "sendAlert e st farmer frm a =
     (case phoneNumber farmer of
        None \<Rightarrow> (SmsFail ''TypeError'', st)
      | Some rawNumber \<Rightarrow>
          (case formatPhoneNumber rawNumber of
             None \<Rightarrow> (SmsFail ''Invalid phone number'', st)
           | Some number \<Rightarrow>
               (let message = renderMessage e (fullName farmer) (farm_name frm) a;
                    urgency = getUrgencyLevel (stressLevel a);
                    result = smsGateway e number message urgency;
                    st1 = st\<lparr>smsLog := smsLog st @ [(number, message, urgency)]\<rparr>
                in if sms_success result then
                     (result,
                      st1\<lparr>stressCache := (stressCache st1)(farm_uid frm \<mapsto>
                            \<lparr>ce_timestamp = clockSend e,
                             ce_stressLevel = stressLevel a,
                             ce_messageId = sms_messageId result\<rparr>)\<rparr>)
                   else (result, st1))))"

text \<open>\<open>storeAnalysisResults\<close>: the update of the farm sets only \<open>lastNDVIAnalysis\<close>, a path
  the \<open>Farm\<close> schema does not have, so the farm documents stay as they are; each forecast
  day is upserted into the NDVI collection.\<close>

definition storeAnalysisResults ::
  "env \<Rightarrow> system \<Rightarrow> js_id \<Rightarrow> analysis \<Rightarrow> forecast_result \<Rightarrow> system" where
  "storeAnalysisResults e st farmId a fc =
     st\<lparr>ndviDocs :=
          foldl (\<lambda>docs forecastDay. upsertForecast e docs (idValue farmId) a forecastDay)
            (ndviDocs st) (forecast fc)\<rparr>"

text \<open>The validators of the \<open>Alert\<close> schema that \<open>save\<close> runs: the enumerations and the
  range of the confidence.\<close>

definition alertValid :: "alert \<Rightarrow> bool" where
  "alertValid al =
     (al_stressLevel al \<in> set [''healthy'', ''low'', ''moderate'', ''high'', ''severe'']
      \<and> 0 \<le> al_confidence al \<and> al_confidence al \<le> 1
      \<and> al_alertType al \<in> set [''sms'', ''in_app'', ''email'']
      \<and> al_status al \<in> set [''pending'', ''sent'', ''delivered'', ''failed'']
      \<and> al_urgency al \<in> set [''low'', ''medium'', ''high'', ''critical''])"

text \<open>\<open>storeAlertRecord(farmId, analysis, alertResult, farm, farmer)\<close>. An argument the caller
  leaves out is \<open>undefined\<close> (\<open>None\<close>); reading a property of it throws inside the \<open>try\<close>, and
  the \<open>catch\<close> returns \<open>null\<close> without saving. \<open>farmer._id\<close> is the first such read.\<close>

definition storeAlertRecord ::
  "env \<Rightarrow> system \<Rightarrow> js_id \<Rightarrow> analysis \<Rightarrow> sms_result \<Rightarrow> farm_doc option \<Rightarrow> user option
     \<Rightarrow> alert option \<times> system" where
  "storeAlertRecord e st farmId a alertResult frmArg farmerArg =
     (case farmerArg of
        None \<Rightarrow> (None, st)
      | Some farmer \<Rightarrow>
          (case frmArg of
             None \<Rightarrow> (None, st)
           | Some frm \<Rightarrow>
               (let al = \<lparr>al_farmId = idValue farmId,
                          al_userId = user_uid farmer,
                          al_stressLevel = stressLevel a,
                          al_confidence = confidence a,
                          al_ndviValue = (if ndviCurrent a = 0 then 0 else ndviCurrent a),
                          al_recommendations = recommendations a,
                          al_riskFactors = (case riskFactors a of None \<Rightarrow> [] | Some r \<Rightarrow> r),
                          al_aiAnalysis = analysisText a,
                          al_alertType = (if sms_success alertResult then ''sms'' else ''in_app''),
                          al_status = (if sms_success alertResult then ''sent'' else ''failed''),
                          al_sentAt = (if sms_success alertResult then Some (clockStore e) else None),
                          al_phoneNumber = phoneNumber farmer,
                          al_message = renderMessage e (fullName farmer) (farm_name frm) a,
                          al_urgency = getUrgencyLevel (stressLevel a)\<rparr>
                in if alertValid al then (Some al, st\<lparr>alerts := alerts st @ [al]\<rparr>)
                   else (None, st))))"

datatype reason = ReasonTrue | ReasonText string

text \<open>The object \<open>analyzeFarmAndAlert\<close> resolves to: \<open>{success: false, error}\<close>, the result
  of the alert branch (\<open>alertSent\<close>, \<open>alertId\<close>), or the result without an alert.\<close>

datatype outcome =
    Failure string
  | AlertBranch analysis forecast_result bool "string option"
  | NoAlert analysis forecast_result reason

text \<open>\<open>analyzeFarmAndAlert(farmId)\<close>. The three database reads at its head are the
  statements that can throw into the outer \<open>catch\<close>, which returns the message of the
  error; the calls after them catch what they throw themselves. The call of
  \<open>storeAlertRecord\<close> passes three arguments, as the source does.\<close>

definition analyzeFarmAndAlert :: "env \<Rightarrow> system \<Rightarrow> js_id \<Rightarrow> outcome \<times> system" where
  "analyzeFarmAndAlert e st farmId =
     (case farmFindError e farmId of
        Some message \<Rightarrow> (Failure message, st)
      | None \<Rightarrow>
     (case findFarmById e st farmId of
        None \<Rightarrow> (Failure ''Farm not found or inactive'', st)
      | Some frm \<Rightarrow>
          if \<not> farm_isActive frm then (Failure ''Farm not found or inactive'', st)
          else
            (case userFindError e (farm_owner frm) of
               Some message \<Rightarrow> (Failure message, st)
             | None \<Rightarrow>
            (case users st (farm_owner frm) of
               None \<Rightarrow> (Failure ''Farm owner not found or inactive'', st)
             | Some farmOwner \<Rightarrow>
                 if \<not> user_isActive farmOwner then
                   (Failure ''Farm owner not found or inactive'', st)
                 else
                   (case ndviFindError e farmId of
                      Some message \<Rightarrow> (Failure message, st)
                    | None \<Rightarrow>
                   (let ndviData = findNDVI st farmId
                    in if length ndviData < 3 then
                         (Failure ''Insufficient NDVI data for analysis'', st)
                       else
                         (let a = detectCropStress e ndviData;
                              fc = generateStressForecast (today e) (mathRandom e) ndviData 14;
                              st1 = storeAnalysisResults e st farmId a fc
                          in if shouldSendAlert e st1 farmId a then
                               (let (alertResult, st2) = sendAlert e st1 farmOwner frm a;
                                    (stored, st3) =
                                      storeAlertRecord e st2 farmId a alertResult None None
                                in (AlertBranch a fc (sms_success alertResult)
                                      (sms_messageId alertResult), st3))
                             else
                               (NoAlert a fc
                                  (if stressLevel a = ''healthy'' then ReasonTrue
                                   else ReasonText ''Recently alerted''), st1))))))))"

section \<open>Example data\<close>

text \<open>A farm and its owner as the test-data script of the repository creates them (the farm
  ``Java Rice Fields'', the user ``Test Farmer'' with phone number +1234567890), three NDVI
  readings of 0.15 for the farm, no LLM key, an SMS gateway that accepts every request, a
  driver that throws a cast error for a farm id string that is not 24 hex digits, and a
  database that keeps the NDVI collection as it is on a forecast upsert.\<close>

definition exampleFarmId :: string where
  "exampleFarmId = ''64b7f0c2a1d3e4f5a6b7c8d9''"

definition exampleUserId :: string where
  "exampleUserId = ''64b7f0c2a1d3e4f5a6b7c8d0''"

definition exampleFarm :: farm where
  "exampleFarm =
     \<lparr>farm_name = ''Java Rice Fields'', farm_owner = exampleUserId, farm_isActive = True\<rparr>"

definition exampleUser :: user where
  "exampleUser =
     \<lparr>user_uid = exampleUserId, fullName = ''Test Farmer'',
      phoneNumber = Some ''+1234567890'', user_isActive = True\<rparr>"

definition exampleSamples :: "ndvi_sample list" where
  "exampleSamples =
     [\<lparr>date = 3, ndvi = 0.15\<rparr>, \<lparr>date = 2, ndvi = 0.15\<rparr>, \<lparr>date = 1, ndvi = 0.15\<rparr>]"

definition isObjectIdString :: "string \<Rightarrow> bool" where
  "isObjectIdString s =
     (length s = 24 \<and> list_all (\<lambda>c. c \<in> set ''0123456789abcdefABCDEF'') s)"

fun exampleCastError :: "js_id \<Rightarrow> string option" where
  "exampleCastError (IdString s) =
     (if isObjectIdString s then None else Some (''Cast to ObjectId failed for value '' @ s))"
| "exampleCastError (IdObject r v) = None"

text \<open>The outside of one call: the clock reads \<open>now\<close> at the guard, and the document that
  \<open>Farm.findById\<close> loads in this call gets the \<open>_id\<close> object \<open>object\<close>.\<close>

definition exampleEnv :: "int \<Rightarrow> nat \<Rightarrow> env" where
  "exampleEnv now object =
     \<lparr>apiKeySet = False,
      huaweiLLM = (\<lambda>ndviData. None),
      mathRandom = (\<lambda>i. 0.5),
      today = 0,
      clockGuard = now,
      clockSend = now + 1,
      clockStore = now + 2,
      smsGateway = (\<lambda>number message urgency. SmsOk (Some ''sid-1'')),
      renderMessage = (\<lambda>farmerName farmName a. ''FarmSight Alert''),
      farmDocObject = object,
      farmFindError = exampleCastError,
      userFindError = (\<lambda>userId. None),
      ndviFindError = (\<lambda>farmId. None),
      upsertForecast = (\<lambda>docs farmId a forecastDay. docs)\<rparr>"

definition exampleSystem :: "ndvi_sample list \<Rightarrow> system" where
  "exampleSystem samples =
     \<lparr>farms = [exampleFarmId \<mapsto> exampleFarm],
      users = [exampleUserId \<mapsto> exampleUser],
      ndviDocs = map (\<lambda>s. \<lparr>doc_farm = exampleFarmId, doc_sample = s\<rparr>) samples,
      alerts = [],
      stressCache = Map.empty,
      smsLog = []\<rparr>"

section \<open>Properties of the trend and the classification\<close>

lemma foldl_add_sum_list: "foldl (\<lambda>sum p. sum + f p) a ps = a + sum_list (map f ps)"
  for a :: real
  by (induction ps arbitrary: a) simp_all

lemma sliceLast5_length: "length (sliceLast5 xs) = min 5 (length xs)"
  by (simp add: sliceLast5_def)

lemma regressionPoints_length: "length (regressionPoints r) = length r"
  by (simp add: regressionPoints_def)

lemma regressionPoints_x: "map pt_x (regressionPoints r) = map real [0..<length r]"
  apply (simp add: regressionPoints_def enumerate_eq_zip comp_def case_prod_unfold)
  apply (induction r rule: rev_induct)
   apply simp_all
  done

lemma sum_index: "2 * sum_list (map real [0..<n]) = real n * (real n - 1)"
  by (induction n) (simp_all add: algebra_simps)

lemma sum_index_sq:
  "6 * sum_list (map (\<lambda>v. v * v) (map real [0..<n])) = (real n - 1) * real n * (2 * real n - 1)"
  by (induction n) (simp_all add: algebra_simps)

lemma regressionDenominator_index:
  "12 * regressionDenominator (regressionPoints r) =
     real (length r) * real (length r) * (real (length r) - 1) * (real (length r) + 1)"
proof -
  let ?n = "real (length r)"
  let ?ps = "regressionPoints r"
  have sx: "foldl (\<lambda>sum p. sum + pt_x p) 0 ?ps = sum_list (map real [0..<length r])"
    by (simp add: foldl_add_sum_list regressionPoints_x)
  have "map (\<lambda>p. pt_x p * pt_x p) ?ps = map (\<lambda>v. v * v) (map pt_x ?ps)"
    by simp
  then have sx2: "foldl (\<lambda>sum p. sum + pt_x p * pt_x p) 0 ?ps
      = sum_list (map (\<lambda>v. v * v) (map real [0..<length r]))"
    by (simp only: foldl_add_sum_list regressionPoints_x add_0)
  define S where "S = sum_list (map real [0..<length r])"
  define Q where "Q = sum_list (map (\<lambda>v. v * v) (map real [0..<length r]))"
  have S: "2 * S = ?n * (?n - 1)" unfolding S_def by (rule sum_index)
  have Q: "6 * Q = (?n - 1) * ?n * (2 * ?n - 1)" unfolding Q_def by (rule sum_index_sq)
  have "regressionDenominator ?ps = ?n * Q - S * S"
    by (simp add: regressionDenominator_def Let_def sx sx2 S_def Q_def regressionPoints_length)
  moreover have "12 * (?n * Q - S * S) = 2 * ?n * (6 * Q) - 3 * ((2 * S) * (2 * S))"
    by (simp add: algebra_simps)
  ultimately have "12 * regressionDenominator ?ps
      = 2 * ?n * ((?n - 1) * ?n * (2 * ?n - 1)) - 3 * ((?n * (?n - 1)) * (?n * (?n - 1)))"
    by (simp only: S Q)
  also have "\<dots> = ?n * ?n * (?n - 1) * (?n + 1)"
    by (simp add: algebra_simps)
  finally show ?thesis .
qed

lemma regressionDenominator_pos:
  assumes "2 \<le> length r"
  shows "0 < regressionDenominator (regressionPoints r)"
proof -
  let ?n = "real (length r)"
  have n: "2 \<le> ?n" using assms by simp
  then have "0 < ?n" and "0 < ?n - 1" and "0 < ?n + 1" by linarith+
  then have "0 < ?n * ?n * (?n - 1) * (?n + 1)" by (intro mult_pos_pos)
  then have "0 < 12 * regressionDenominator (regressionPoints r)"
    by (simp only: regressionDenominator_index)
  then show ?thesis by simp
qed

lemma calculateNDVITrend_finite: "\<exists>s. calculateNDVITrend ndviData = Num s"
proof (cases "length ndviData < 2")
  case True
  then show ?thesis by (simp add: calculateNDVITrend_def)
next
  case False
  then have "2 \<le> length (sliceLast5 ndviData)" by (simp add: sliceLast5_length)
  then have "regressionDenominator (regressionPoints (sliceLast5 ndviData)) \<noteq> 0"
    using regressionDenominator_pos by fastforce
  then show ?thesis
    using False by (simp add: calculateNDVITrend_def calculateLinearRegression_def js_div_def Let_def)
qed


lemma latestNDVI_last: "ndviData \<noteq> [] \<Longrightarrow> latestNDVI ndviData = ndvi (last ndviData)"
  by (cases ndviData) (simp_all add: latestNDVI_def)

lemma analyzeWithRules_level:
  "stressLevel (analyzeWithRules ndviData) =
     (if js_lt (calculateNDVITrend ndviData) (- 0.05)
      then upgradeStressLevel (baseStressLevel ndviData) else baseStressLevel ndviData)"
  by (simp add: analyzeWithRules_def baseStressLevel_def Let_def case_prod_unfold)

lemma upgrade_steps:
  "upgradeStressLevel ''healthy'' = ''low''"
  "upgradeStressLevel ''low'' = ''moderate''"
  "upgradeStressLevel ''moderate'' = ''high''"
  "upgradeStressLevel ''high'' = ''severe''"
  "upgradeStressLevel ''severe'' = ''severe''"
  by (simp_all add: upgradeStressLevel_def levels_def)

lemma rulesBase_cases:
  "fst (rulesBase v) =
     (if v < 0.2 then ''severe'' else if v < 0.3 then ''high''
      else if v < 0.4 then ''moderate'' else ''healthy'')"
  by (simp add: rulesBase_def)

text \<open>
  Claim C10. For a sample sequence with at least two elements, the x-values that
  \<open>calculateNDVITrend\<close> passes to the regression are the distinct indices 0..k-1 of the last
  k = min(5, n) samples, the denominator \<open>n * sumX2 - sumX * sumX\<close> is strictly positive, and
  the slope is a finite number (never NaN or an infinity).
\<close>

theorem C10_trend_well_defined:
  assumes "2 \<le> length ndviData"
  shows "map pt_x (regressionPoints (sliceLast5 ndviData)) = map real [0..<min 5 (length ndviData)]
       \<and> distinct (map pt_x (regressionPoints (sliceLast5 ndviData)))
       \<and> 0 < regressionDenominator (regressionPoints (sliceLast5 ndviData))
       \<and> (\<exists>s. calculateNDVITrend ndviData = Num s)"
proof -
  let ?r = "sliceLast5 ndviData"
  have len: "length ?r = min 5 (length ndviData)" by (rule sliceLast5_length)
  have xs: "map pt_x (regressionPoints ?r) = map real [0..<min 5 (length ndviData)]"
    by (simp only: regressionPoints_x len)
  have "inj_on real (set [0..<min 5 (length ndviData)])" by (simp add: inj_on_def)
  then have d: "distinct (map pt_x (regressionPoints ?r))"
    by (simp only: xs distinct_map distinct_upt simp_thms)
  have "2 \<le> length ?r" using assms len by simp
  then have p: "0 < regressionDenominator (regressionPoints ?r)"
    by (rule regressionDenominator_pos)
  show ?thesis using xs d p calculateNDVITrend_finite by blast
qed

theorem C10_witness:
  "2 \<le> length [\<lparr>date = 0, ndvi = 0.46\<rparr>, \<lparr>date = 1, ndvi = 0.38\<rparr>]
   \<and> 0 < regressionDenominator
        (regressionPoints (sliceLast5 [\<lparr>date = 0, ndvi = 0.46\<rparr>, \<lparr>date = 1, ndvi = 0.38\<rparr>]))"
  using C10_trend_well_defined [of "[\<lparr>date = 0, ndvi = 0.46\<rparr>, \<lparr>date = 1, ndvi = 0.38\<rparr>]"]
  by simp

text \<open>
  The level that \<open>analyzeWithRules\<close> returns is the base level, moved up one step when the
  trend is below -0.05 (\<open>analyzeWithRules_level\<close>, \<open>upgrade_steps\<close>). The trend compared
  there is the exact slope; the source compares the slope as computed in doubles, which can
  lie on the other side of -0.05 when the exact slope is within rounding distance of it: for
  the samples 0.45, 0.4 the exact slope is -0.05 and the slope in doubles is just below it.
\<close>

lemma trend_two_samples:
  "calculateNDVITrend [\<lparr>date = d1, ndvi = a\<rparr>, \<lparr>date = d2, ndvi = b\<rparr>] = Num (b - a)"
  by (simp add: calculateNDVITrend_def sliceLast5_def regressionPoints_def
      calculateLinearRegression_def regressionDenominator_def js_div_def)

lemma trend_one_sample: "calculateNDVITrend [s] = Num 0"
  by (simp add: calculateNDVITrend_def)

lemma baseStressLevel_snoc: "baseStressLevel (ndviData @ [s]) = fst (rulesBase (ndvi s))"
  by (simp add: baseStressLevel_def latestNDVI_last)

lemma rules_bands_that_hold:
  assumes "ndviData \<noteq> []" and "calculateNDVITrend ndviData = Num s" and "- 0.05 \<le> s"
  shows "stressLevel (analyzeWithRules ndviData) =
     (if ndvi (last ndviData) < 0.2 then ''severe''
      else if ndvi (last ndviData) < 0.3 then ''high''
      else if ndvi (last ndviData) < 0.4 then ''moderate''
      else ''healthy'')"
  using assms by (simp add: analyzeWithRules_level baseStressLevel_def latestNDVI_last rulesBase_cases)

text \<open>
  Claim C2, evaluated at the single sample with ndvi 0.45 (trend 0, so no escalation): the
  claim asks for \<open>low\<close>; \<open>analyzeWithRules\<close> has no branch for the band from 0.4 to 0.5 and
  returns \<open>healthy\<close>, while the threshold chain of the forecast in the same class gives
  \<open>low\<close> for the same value.
\<close>

theorem C2_low_band_is_healthy:
  "calculateNDVITrend [\<lparr>date = 0, ndvi = 0.45\<rparr>] = Num 0
   \<and> latestNDVI [\<lparr>date = 0, ndvi = 0.45\<rparr>] = 0.45
   \<and> stressLevel (analyzeWithRules [\<lparr>date = 0, ndvi = 0.45\<rparr>]) = ''healthy''
   \<and> forecastLevel (Num 0.45) = ''low''"
  by (simp add: trend_one_sample analyzeWithRules_level baseStressLevel_def latestNDVI_def
      rulesBase_cases forecastLevel_def)

text \<open>
  Claim C3, evaluated on a sequence sorted by date descending (the order in which
  \<open>analyzeFarmAndAlert\<close> and the forecast route pass the samples): the most recent sample
  (date 2) has ndvi 0.1, the oldest (date 1) has 0.8. The base level is \<open>healthy\<close>; changing
  the most recent sample leaves it unchanged, changing the oldest one changes it to \<open>severe\<close>.
\<close>

theorem C3_oldest_sample_drives:
  "baseStressLevel [\<lparr>date = 2, ndvi = 0.1\<rparr>, \<lparr>date = 1, ndvi = 0.8\<rparr>] = ''healthy''
   \<and> baseStressLevel [\<lparr>date = 2, ndvi = 0.8\<rparr>, \<lparr>date = 1, ndvi = 0.8\<rparr>] = ''healthy''
   \<and> baseStressLevel [\<lparr>date = 2, ndvi = 0.1\<rparr>, \<lparr>date = 1, ndvi = 0.1\<rparr>] = ''severe''
   \<and> sort_key (\<lambda>d. - date d) [\<lparr>date = 2, ndvi = 0.1\<rparr>, \<lparr>date = 1, ndvi = 0.8\<rparr>]
       = [\<lparr>date = 2, ndvi = 0.1\<rparr>, \<lparr>date = 1, ndvi = 0.8\<rparr>]"
  by (simp add: baseStressLevel_def latestNDVI_def rulesBase_cases)

text \<open>
  Claim C5 fails: with the driving sample at ndvi 0.38 and a trend of -0.08, the base level
  is not \<open>high\<close> and the result is not \<open>severe\<close>.
\<close>

theorem C5_counterexample:
  "latestNDVI [\<lparr>date = 0, ndvi = 0.46\<rparr>, \<lparr>date = 1, ndvi = 0.38\<rparr>] = 0.38
   \<and> calculateNDVITrend [\<lparr>date = 0, ndvi = 0.46\<rparr>, \<lparr>date = 1, ndvi = 0.38\<rparr>] = Num (- 0.08)
   \<and> baseStressLevel [\<lparr>date = 0, ndvi = 0.46\<rparr>, \<lparr>date = 1, ndvi = 0.38\<rparr>] \<noteq> ''high''
   \<and> stressLevel (analyzeWithRules [\<lparr>date = 0, ndvi = 0.46\<rparr>, \<lparr>date = 1, ndvi = 0.38\<rparr>])
       \<noteq> ''severe''"
  by (simp add: trend_two_samples analyzeWithRules_level baseStressLevel_def latestNDVI_def
      rulesBase_cases upgrade_steps)

text \<open>
  Claim C5, amended. For an input whose driving sample (the last array element, which the
  code reads as the latest) has ndvi 0.38 and whose trend slope is -0.08, the base level is
  \<open>moderate\<close>, which the one-step escalation raises to \<open>high\<close>.
\<close>

theorem C5_moderate_escalates_to_high:
  assumes "latestNDVI ndviData = 0.38" and "calculateNDVITrend ndviData = Num (- 0.08)"
  shows "baseStressLevel ndviData = ''moderate''
       \<and> stressLevel (analyzeWithRules ndviData) = ''high''"
  using assms
  by (simp add: analyzeWithRules_level baseStressLevel_def rulesBase_cases upgrade_steps)

theorem C5_witness:
  "latestNDVI [\<lparr>date = 0, ndvi = 0.46\<rparr>, \<lparr>date = 1, ndvi = 0.38\<rparr>] = 0.38
   \<and> calculateNDVITrend [\<lparr>date = 0, ndvi = 0.46\<rparr>, \<lparr>date = 1, ndvi = 0.38\<rparr>] = Num (- 0.08)
   \<and> baseStressLevel [\<lparr>date = 0, ndvi = 0.46\<rparr>, \<lparr>date = 1, ndvi = 0.38\<rparr>] = ''moderate''
   \<and> stressLevel (analyzeWithRules [\<lparr>date = 0, ndvi = 0.46\<rparr>, \<lparr>date = 1, ndvi = 0.38\<rparr>]) = ''high''"
proof -
  let ?d = "[\<lparr>date = 0, ndvi = 0.46\<rparr>, \<lparr>date = 1, ndvi = 0.38\<rparr>]"
  have l: "latestNDVI ?d = 0.38" by (simp add: latestNDVI_def)
  have t: "calculateNDVITrend ?d = Num (- 0.08)" by (simp add: trend_two_samples)
  from C5_moderate_escalates_to_high [OF l t] l t show ?thesis by simp
qed

lemma forecastLoop_eq: "forecastLoop body days i acc = acc @ map body [i..days]"
proof (induction body days i acc rule: forecastLoop.induct)
  case (1 body days i acc)
  show ?case
  proof (cases "i \<le> days")
    case True
    then have u: "[i..days] = i # [i + 1..days]" by (simp add: upto_rec1)
    have "forecastLoop body days i acc = forecastLoop body days (i + 1) (acc @ [body i])"
      using True by (subst forecastLoop.simps) simp
    also have "\<dots> = (acc @ [body i]) @ map body [i + 1..days]"
      using True by (rule "1.IH")
    finally show ?thesis by (simp add: u)
  next
    case False
    then show ?thesis by (subst forecastLoop.simps) simp
  qed
qed

text \<open>
  Claim C7. For every sample sequence with fewer than three samples and every horizon,
  \<open>generateStressForecast\<close> returns an empty forecast and the method tag
  \<open>insufficient_data\<close>.
\<close>

theorem C7_insufficient_data:
  assumes "length ndviData < 3"
  shows "forecast (generateStressForecast day0 rnd ndviData days) = []
       \<and> fr_method (generateStressForecast day0 rnd ndviData days) = ''insufficient_data''"
  using assms by (simp add: generateStressForecast_def)

theorem C7_witness:
  "length [\<lparr>date = 2, ndvi = 0.5\<rparr>, \<lparr>date = 1, ndvi = 0.6\<rparr>] < 3
   \<and> forecast (generateStressForecast 0 (\<lambda>i. 0.5)
        [\<lparr>date = 2, ndvi = 0.5\<rparr>, \<lparr>date = 1, ndvi = 0.6\<rparr>] 14) = []
   \<and> fr_method (generateStressForecast 0 (\<lambda>i. 0.5)
        [\<lparr>date = 2, ndvi = 0.5\<rparr>, \<lparr>date = 1, ndvi = 0.6\<rparr>] 14) = ''insufficient_data''"
  using C7_insufficient_data [of "[\<lparr>date = 2, ndvi = 0.5\<rparr>, \<lparr>date = 1, ndvi = 0.6\<rparr>]" 0 "\<lambda>i. 0.5" 14]
  by simp

lemma upto_nth_from_1:
  assumes "1 \<le> i" and "i \<le> days"
  shows "nat (i - 1) < length [1..days]" and "[1..days] ! nat (i - 1) = i"
proof -
  show "nat (i - 1) < length [1..days]" using assms by simp
  have "1 + int (nat (i - 1)) \<le> days" using assms by linarith
  then have "[1..days] ! nat (i - 1) = 1 + int (nat (i - 1))" by (rule nth_upto)
  also have "\<dots> = i" using assms by linarith
  finally show "[1..days] ! nat (i - 1) = i" .
qed

lemma forecast_unfold:
  assumes "3 \<le> length ndviData"
  shows "forecast (generateStressForecast day0 rnd ndviData days)
       = map (forecastDay day0 rnd (ndvi (last ndviData)) (calculateNDVITrend ndviData) days)
           [1..days]"
  using assms by (simp add: generateStressForecast_def forecastLoop_eq Let_def)

lemma forecast_nth:
  assumes "3 \<le> length ndviData" and "1 \<le> i" and "i \<le> days"
  shows "forecast (generateStressForecast day0 rnd ndviData days) ! nat (i - 1)
       = forecastDay day0 rnd (ndvi (last ndviData)) (calculateNDVITrend ndviData) days i"
  using upto_nth_from_1 [OF assms(2,3)]
  by (simp only: forecast_unfold [OF assms(1)] nth_map)

lemma forecast_length:
  assumes "3 \<le> length ndviData"
  shows "length (forecast (generateStressForecast day0 rnd ndviData days)) = nat days"
  by (simp only: forecast_unfold [OF assms] length_map length_upto)

lemma dayConfidence_plain:
  assumes "1 \<le> i" and "i \<le> days"
  shows "max 0.5 (0.9 - (real_of_int i / real_of_int days) * 0.4)
       = 0.9 - (real_of_int i / real_of_int days) * (0.4::real)"
proof -
  have "real_of_int i / real_of_int days \<le> 1" using assms by simp
  then show ?thesis by simp
qed

text \<open>
  Claim C8. For at least three samples and a horizon of at least one day, the forecast has
  exactly \<open>days\<close> points, the confidence of the point for day i (1 <= i <= days) is
  max(0.5, 0.9 - (i / days) * 0.4), and the confidence is strictly decreasing in i.
\<close>

theorem C8_forecast_confidence:
  assumes "3 \<le> length ndviData" and "1 \<le> days"
  shows "length (forecast (generateStressForecast day0 rnd ndviData days)) = nat days
       \<and> (\<forall>i. 1 \<le> i \<and> i \<le> days \<longrightarrow>
             fp_confidence (forecast (generateStressForecast day0 rnd ndviData days) ! nat (i - 1))
               = max 0.5 (0.9 - (real_of_int i / real_of_int days) * 0.4))
       \<and> (\<forall>i j. 1 \<le> i \<and> i < j \<and> j \<le> days \<longrightarrow>
             fp_confidence (forecast (generateStressForecast day0 rnd ndviData days) ! nat (j - 1))
               < fp_confidence (forecast (generateStressForecast day0 rnd ndviData days) ! nat (i - 1)))"
proof (intro conjI allI impI)
  show "length (forecast (generateStressForecast day0 rnd ndviData days)) = nat days"
    using assms(1) by (rule forecast_length)
next
  fix i assume "1 \<le> i \<and> i \<le> days"
  then show "fp_confidence (forecast (generateStressForecast day0 rnd ndviData days) ! nat (i - 1))
       = max 0.5 (0.9 - (real_of_int i / real_of_int days) * 0.4)"
    using assms(1) by (simp add: forecast_nth forecastDay_def Let_def)
next
  fix i j assume h: "1 \<le> i \<and> i < j \<and> j \<le> days"
  then have d: "0 < real_of_int days" by simp
  have "real_of_int i / real_of_int days < real_of_int j / real_of_int days"
    using h d by (simp add: divide_strict_right_mono)
  then have "0.9 - (real_of_int j / real_of_int days) * 0.4
      < 0.9 - (real_of_int i / real_of_int days) * (0.4::real)" by simp
  moreover have "1 \<le> j" "i \<le> days" using h by simp_all
  ultimately show "fp_confidence (forecast (generateStressForecast day0 rnd ndviData days) ! nat (j - 1))
      < fp_confidence (forecast (generateStressForecast day0 rnd ndviData days) ! nat (i - 1))"
    using assms(1) h
    by (simp only: forecast_nth forecastDay_def Let_def forecast_point.simps dayConfidence_plain)
qed

theorem C8_witness:
  "3 \<le> length [\<lparr>date = 3, ndvi = 0.5\<rparr>, \<lparr>date = 2, ndvi = 0.5\<rparr>, \<lparr>date = 1, ndvi = 0.6\<rparr>]
   \<and> (1::int) \<le> 2
   \<and> length (forecast (generateStressForecast 0 (\<lambda>i. 0.5)
        [\<lparr>date = 3, ndvi = 0.5\<rparr>, \<lparr>date = 2, ndvi = 0.5\<rparr>, \<lparr>date = 1, ndvi = 0.6\<rparr>] 2)) = 2
   \<and> fp_confidence (forecast (generateStressForecast 0 (\<lambda>i. 0.5)
        [\<lparr>date = 3, ndvi = 0.5\<rparr>, \<lparr>date = 2, ndvi = 0.5\<rparr>, \<lparr>date = 1, ndvi = 0.6\<rparr>] 2) ! nat (2 - 1))
      < fp_confidence (forecast (generateStressForecast 0 (\<lambda>i. 0.5)
        [\<lparr>date = 3, ndvi = 0.5\<rparr>, \<lparr>date = 2, ndvi = 0.5\<rparr>, \<lparr>date = 1, ndvi = 0.6\<rparr>] 2) ! nat (1 - 1))"
proof -
  let ?d = "[\<lparr>date = 3, ndvi = 0.5\<rparr>, \<lparr>date = 2, ndvi = 0.5\<rparr>, \<lparr>date = 1, ndvi = 0.6\<rparr>]"
  have a: "3 \<le> length ?d" by simp
  have b: "(1::int) \<le> 2" by simp
  have c: "(1::int) \<le> 1 \<and> (1::int) < 2 \<and> (2::int) \<le> 2" by simp
  note inst = C8_forecast_confidence [OF a b, of 0 "\<lambda>i. 0.5"]
  from inst have n: "length (forecast (generateStressForecast 0 (\<lambda>i. 0.5) ?d 2)) = nat 2"
    by (rule conjunct1)
  from inst have q: "\<forall>i j. 1 \<le> i \<and> i < j \<and> j \<le> 2 \<longrightarrow>
      fp_confidence (forecast (generateStressForecast 0 (\<lambda>i. 0.5) ?d 2) ! nat (j - 1))
        < fp_confidence (forecast (generateStressForecast 0 (\<lambda>i. 0.5) ?d 2) ! nat (i - 1))"
    by (rule conjunct2 [THEN conjunct2])
  have "fp_confidence (forecast (generateStressForecast 0 (\<lambda>i. 0.5) ?d 2) ! nat (2 - 1))
        < fp_confidence (forecast (generateStressForecast 0 (\<lambda>i. 0.5) ?d 2) ! nat (1 - 1))"
    by (rule q [rule_format, of 1 2, OF c])
  with n a b show ?thesis by simp
qed


section \<open>Properties of the alert service\<close>

lemma storeAnalysisResults_keeps:
  "alerts (storeAnalysisResults e st farmId a fc) = alerts st"
  "stressCache (storeAnalysisResults e st farmId a fc) = stressCache st"
  "smsLog (storeAnalysisResults e st farmId a fc) = smsLog st"
  "users (storeAnalysisResults e st farmId a fc) = users st"
  "farms (storeAnalysisResults e st farmId a fc) = farms st"
  by (simp_all add: storeAnalysisResults_def)

lemma sendAlert_alerts: "alerts (snd (sendAlert e st farmer frm a)) = alerts st"
  by (simp add: sendAlert_def Let_def split: option.splits)

lemma sendAlert_smsLog:
  "smsLog (snd (sendAlert e st farmer frm a)) = smsLog st
   \<or> (\<exists>m. smsLog (snd (sendAlert e st farmer frm a)) = smsLog st @ [m])"
  by (simp add: sendAlert_def Let_def split: option.splits)

lemma sendAlert_smsLog_from:
  assumes "smsLog st1 = l"
  shows "smsLog (snd (sendAlert e st1 farmer frm a)) = l
       \<or> (\<exists>m. smsLog (snd (sendAlert e st1 farmer frm a)) = l @ [m])"
  using sendAlert_smsLog [of e st1 farmer frm a] assms by simp

lemma sendAlert_cache_dom:
  "dom (stressCache (snd (sendAlert e st farmer frm a)))
     \<subseteq> insert (farm_uid frm) (dom (stressCache st))"
  by (auto simp add: sendAlert_def Let_def split: option.splits if_splits)

lemma storeAlertRecord_undefined_farmer:
  "storeAlertRecord e st farmId a alertResult frmArg None = (None, st)"
  by (simp add: storeAlertRecord_def)

lemma findFarmById_uid:
  "findFarmById e st farmId = Some frm
     \<Longrightarrow> farm_uid frm = IdObject (farmDocObject e) (idValue farmId)"
  by (auto simp add: findFarmById_def split: option.splits)


lemma analyze_alerts_unchanged:
  "alerts (snd (analyzeFarmAndAlert e st farmId)) = alerts st"
  by (simp add: analyzeFarmAndAlert_def Let_def case_prod_unfold
      storeAlertRecord_undefined_farmer storeAnalysisResults_keeps sendAlert_alerts
      split: option.splits)

lemma analyze_smsLog:
  "smsLog (snd (analyzeFarmAndAlert e st farmId)) = smsLog st
   \<or> (\<exists>m. smsLog (snd (analyzeFarmAndAlert e st farmId)) = smsLog st @ [m])"
  apply (simp add: analyzeFarmAndAlert_def Let_def case_prod_unfold
        storeAlertRecord_undefined_farmer storeAnalysisResults_keeps
        split: option.splits del: split_paired_Ex)
  apply (intro impI allI)
  apply (rule sendAlert_smsLog_from)
  apply (rule storeAnalysisResults_keeps)
  done

lemma analyze_cache_dom:
  "dom (stressCache (snd (analyzeFarmAndAlert e st farmId)))
     \<subseteq> insert (IdObject (farmDocObject e) (idValue farmId)) (dom (stressCache st))"
proof -
  have s: "\<And>st1 farmer frm a. stressCache st1 = stressCache st \<Longrightarrow>
      findFarmById e st farmId = Some frm \<Longrightarrow>
      dom (stressCache (snd (sendAlert e st1 farmer frm a)))
        \<subseteq> insert (IdObject (farmDocObject e) (idValue farmId)) (dom (stressCache st))"
    using sendAlert_cache_dom findFarmById_uid by metis
  show ?thesis
    apply (simp add: analyzeFarmAndAlert_def Let_def case_prod_unfold
        storeAlertRecord_undefined_farmer storeAnalysisResults_keeps
        split: option.splits)
    apply (intro conjI impI allI subset_insertI s)
     apply (auto simp add: storeAnalysisResults_keeps)
    done
qed

lemma shouldSendAlert_uncached:
  assumes "stressCache st farmId = None"
  shows "shouldSendAlert e st farmId a \<longleftrightarrow>
     stressLevel a \<noteq> ''healthy'' \<and> stressLevel a \<noteq> ''low'' \<and> 0.7 \<le> confidence a"
  using assms by (auto simp add: shouldSendAlert_def)

lemma string_key_uncached:
  assumes "\<forall>k \<in> dom (stressCache st). \<exists>r v. k = IdObject r v"
  shows "stressCache st (IdString s) = None"
proof (rule ccontr)
  assume "stressCache st (IdString s) \<noteq> None"
  then have "IdString s \<in> dom (stressCache st)" by (simp add: dom_def)
  with assms obtain r v where "IdString s = IdObject r v" by blast
  then show False by simp
qed

lemma analyze_sends_only_past_guard:
  assumes "analyzeFarmAndAlert e st farmId = (out, st')" and "smsLog st' \<noteq> smsLog st"
  shows "\<exists>fc sent mid.
        out = AlertBranch (detectCropStress e (findNDVI st farmId)) fc sent mid
      \<and> shouldSendAlert e st farmId (detectCropStress e (findNDVI st farmId))"
proof -
  have g: "\<And>a fc. shouldSendAlert e (storeAnalysisResults e st farmId a fc) farmId a
      = shouldSendAlert e st farmId a"
    by (simp add: shouldSendAlert_def storeAnalysisResults_keeps)
  show ?thesis
    using assms
    by (auto simp add: analyzeFarmAndAlert_def Let_def case_prod_unfold g
        storeAlertRecord_undefined_farmer storeAnalysisResults_keeps
        split: option.splits if_splits)
qed

lemma foldl_keep: "foldl (\<lambda>docs forecastDay. docs) d xs = d"
  by (induction xs) simp_all

lemma exampleSamples_rules:
  "stressLevel (analyzeWithRules exampleSamples) = ''severe''"
  "confidence (analyzeWithRules exampleSamples) = 0.9"
  by (simp_all add: analyzeWithRules_def exampleSamples_def latestNDVI_def rulesBase_def
      calculateNDVITrend_def sliceLast5_def regressionPoints_def calculateLinearRegression_def
      regressionDenominator_def js_div_def Let_def upgradeStressLevel_def levels_def)

lemma examplePhone: "formatPhoneNumber ''+1234567890'' = Some ''+621234567890''"
  by (simp add: formatPhoneNumber_def validatePhoneNumber_def)

lemma exampleFarmId_casts: "isObjectIdString exampleFarmId"
  by (simp add: exampleFarmId_def isObjectIdString_def)

text \<open>One call through the route for the example farm, on any system that holds the example
  farm, its owner and the three readings, and whose cache has no entry under the string.\<close>

lemma example_call:
  assumes "farms st exampleFarmId = Some exampleFarm"
      and "users st exampleUserId = Some exampleUser"
      and "findNDVI st (IdString exampleFarmId) = exampleSamples"
      and "stressCache st (IdString exampleFarmId) = None"
  shows "analyzeFarmAndAlert (exampleEnv now object) st (IdString exampleFarmId) =
     (AlertBranch (analyzeWithRules exampleSamples)
        (generateStressForecast 0 (\<lambda>i. 0.5) exampleSamples 14) True (Some ''sid-1''),
      st\<lparr>smsLog := smsLog st @ [(''+621234567890'', ''FarmSight Alert'', ''urgent'')],
         stressCache := (stressCache st)(IdObject object exampleFarmId \<mapsto>
             \<lparr>ce_timestamp = now + 1, ce_stressLevel = ''severe'',
              ce_messageId = Some ''sid-1''\<rparr>)\<rparr>)"
proof -
  let ?e = "exampleEnv now object"
  have e: "apiKeySet ?e = False" "today ?e = 0" "mathRandom ?e = (\<lambda>i. 0.5)"
    "clockGuard ?e = now" "clockSend ?e = now + 1" "clockStore ?e = now + 2"
    "smsGateway ?e = (\<lambda>number message urgency. SmsOk (Some ''sid-1''))"
    "renderMessage ?e = (\<lambda>farmerName farmName a. ''FarmSight Alert'')"
    "farmDocObject ?e = object" "farmFindError ?e = exampleCastError"
    "userFindError ?e = (\<lambda>userId. None)" "ndviFindError ?e = (\<lambda>farmId. None)"
    "upsertForecast ?e = (\<lambda>docs farmId a forecastDay. docs)"
    by (simp_all add: exampleEnv_def)
  have len: "length exampleSamples = 3" by (simp add: exampleSamples_def)
  have who: "farm_owner exampleFarm = exampleUserId" "farm_isActive exampleFarm"
    "farm_name exampleFarm = ''Java Rice Fields''"
    "user_isActive exampleUser" "phoneNumber exampleUser = Some ''+1234567890''"
    "fullName exampleUser = ''Test Farmer''"
    by (simp_all add: exampleFarm_def exampleUser_def)
  have stored: "\<And>a fc. storeAnalysisResults ?e st (IdString exampleFarmId) a fc = st"
    by (simp add: storeAnalysisResults_def e foldl_keep)
  show ?thesis
    by (simp add: analyzeFarmAndAlert_def findFarmById_def assms len detectCropStress_def e
        exampleFarmId_casts who stored shouldSendAlert_def exampleSamples_rules
        sendAlert_def examplePhone getUrgencyLevel_def storeAlertRecord_def Let_def)
qed

lemma exampleSystem_facts:
  "farms (exampleSystem samples) exampleFarmId = Some exampleFarm"
  "users (exampleSystem samples) exampleUserId = Some exampleUser"
  "stressCache (exampleSystem samples) = Map.empty"
  "smsLog (exampleSystem samples) = []"
  "alerts (exampleSystem samples) = []"
  by (simp_all add: exampleSystem_def)

lemma exampleSamples_found:
  "findNDVI (exampleSystem exampleSamples) (IdString exampleFarmId) = exampleSamples"
  by (simp add: findNDVI_def exampleSystem_def exampleSamples_def)

lemma example_first_call:
  "analyzeFarmAndAlert (exampleEnv now object) (exampleSystem exampleSamples)
       (IdString exampleFarmId) =
     (AlertBranch (analyzeWithRules exampleSamples)
        (generateStressForecast 0 (\<lambda>i. 0.5) exampleSamples 14) True (Some ''sid-1''),
      (exampleSystem exampleSamples)
        \<lparr>smsLog := [(''+621234567890'', ''FarmSight Alert'', ''urgent'')],
         stressCache := [IdObject object exampleFarmId \<mapsto>
             \<lparr>ce_timestamp = now + 1, ce_stressLevel = ''severe'',
              ce_messageId = Some ''sid-1''\<rparr>]\<rparr>)"
  using example_call [of "exampleSystem exampleSamples" now object]
  by (simp add: exampleSystem_facts exampleSamples_found)

text \<open>
  Claim C1, on the code: whenever \<open>analyzeFarmAndAlert\<close> takes its alert branch (the guard
  passed), the collection of Alert Records is the same after the call as before, so no
  Alert Record is persisted; at most one request is handed to the SMS gateway. The call
  \<open>storeAlertRecord(farmId, analysis, alertResult)\<close> leaves \<open>farm\<close> and \<open>farmer\<close> undefined,
  \<open>farmer._id\<close> throws, and the \<open>catch\<close> returns \<open>null\<close> before \<open>save\<close>.
\<close>

theorem C1_alert_branch_stores_no_record:
  assumes "analyzeFarmAndAlert e st farmId = (AlertBranch a fc sent mid, st')"
  shows "alerts st' = alerts st
       \<and> (smsLog st' = smsLog st \<or> (\<exists>m. smsLog st' = smsLog st @ [m]))"
proof -
  have st': "st' = snd (analyzeFarmAndAlert e st farmId)" using assms by simp
  show ?thesis
    unfolding st' using analyze_alerts_unchanged analyze_smsLog by blast
qed

theorem C1_witness:
  "analyzeFarmAndAlert (exampleEnv 1000 101) (exampleSystem exampleSamples) (IdString exampleFarmId) =
     (AlertBranch (analyzeWithRules exampleSamples)
        (generateStressForecast 0 (\<lambda>i. 0.5) exampleSamples 14) True (Some ''sid-1''),
      snd (analyzeFarmAndAlert (exampleEnv 1000 101) (exampleSystem exampleSamples)
             (IdString exampleFarmId)))
   \<and> shouldSendAlert (exampleEnv 1000 101) (exampleSystem exampleSamples) (IdString exampleFarmId)
        (analyzeWithRules exampleSamples)
   \<and> smsLog (snd (analyzeFarmAndAlert (exampleEnv 1000 101) (exampleSystem exampleSamples)
                    (IdString exampleFarmId)))
        = [(''+621234567890'', ''FarmSight Alert'', ''urgent'')]
   \<and> alerts (snd (analyzeFarmAndAlert (exampleEnv 1000 101) (exampleSystem exampleSamples)
                    (IdString exampleFarmId))) = []"
proof -
  let ?r = "analyzeFarmAndAlert (exampleEnv 1000 101) (exampleSystem exampleSamples)
      (IdString exampleFarmId)"
  have run: "?r = (AlertBranch (analyzeWithRules exampleSamples)
        (generateStressForecast 0 (\<lambda>i. 0.5) exampleSamples 14) True (Some ''sid-1''), snd ?r)"
    by (simp add: example_first_call)
  have guard: "shouldSendAlert (exampleEnv 1000 101) (exampleSystem exampleSamples)
        (IdString exampleFarmId) (analyzeWithRules exampleSamples)"
    by (simp add: shouldSendAlert_def exampleSamples_rules exampleSystem_facts)
  have log: "smsLog (snd ?r) = [(''+621234567890'', ''FarmSight Alert'', ''urgent'')]"
    by (simp add: example_first_call)
  have "alerts (snd ?r) = alerts (exampleSystem exampleSamples)"
    using C1_alert_branch_stores_no_record [OF run] by (rule conjunct1)
  then have none: "alerts (snd ?r) = []" by (simp only: exampleSystem_facts)
  from run guard log none show ?thesis by (intro conjI)
qed

text \<open>
  Claim C4, on the code: the cooldown never applies. The cache of a service is empty when
  the service is made, and every call keeps the property that all its keys are \<open>ObjectId\<close>
  objects (\<open>sendAlert\<close> writes under \<open>farm._id\<close>). The guard looks the cache up under the
  \<open>farmId\<close> it was called with; for the string that a route passes the lookup finds
  nothing, so the guard passes whenever the stress level is neither \<open>healthy\<close> nor \<open>low\<close>
  and the confidence is at least 0.7, however recently an alert was sent for the farm.
\<close>

theorem C4_cooldown_lookup_never_hits:
  assumes "\<forall>k \<in> dom (stressCache st). \<exists>r v. k = IdObject r v"
  shows "(\<forall>k \<in> dom (stressCache (snd (analyzeFarmAndAlert e st farmId))). \<exists>r v. k = IdObject r v)
       \<and> (shouldSendAlert e2 st (IdString s) a \<longleftrightarrow>
            stressLevel a \<noteq> ''healthy'' \<and> stressLevel a \<noteq> ''low'' \<and> 0.7 \<le> confidence a)"
proof
  show "\<forall>k \<in> dom (stressCache (snd (analyzeFarmAndAlert e st farmId))). \<exists>r v. k = IdObject r v"
  proof
    fix k
    assume "k \<in> dom (stressCache (snd (analyzeFarmAndAlert e st farmId)))"
    then have "k = IdObject (farmDocObject e) (idValue farmId) \<or> k \<in> dom (stressCache st)"
      using analyze_cache_dom [of e st farmId] by blast
    then show "\<exists>r v. k = IdObject r v" using assms by blast
  qed
next
  have "stressCache st (IdString s) = None" using assms by (rule string_key_uncached)
  then show "shouldSendAlert e2 st (IdString s) a \<longleftrightarrow>
      stressLevel a \<noteq> ''healthy'' \<and> stressLevel a \<noteq> ''low'' \<and> 0.7 \<le> confidence a"
    by (rule shouldSendAlert_uncached)
qed

text \<open>Two calls through the route for the same farm, the second one hour after the alert of
  the first, with the same readings (stress \<open>severe\<close> both times): the cache holds the first
  alert under the \<open>_id\<close> object of the first call, the guard of the second call passes, and
  a second SMS is sent.\<close>

theorem C4_witness:
  "dom (stressCache (exampleSystem exampleSamples)) = {}
   \<and> smsLog (snd (analyzeFarmAndAlert (exampleEnv 1000 101) (exampleSystem exampleSamples)
                    (IdString exampleFarmId)))
       = [(''+621234567890'', ''FarmSight Alert'', ''urgent'')]
   \<and> stressCache (snd (analyzeFarmAndAlert (exampleEnv 1000 101) (exampleSystem exampleSamples)
                    (IdString exampleFarmId))) (IdObject 101 exampleFarmId)
       = Some \<lparr>ce_timestamp = 1001, ce_stressLevel = ''severe'', ce_messageId = Some ''sid-1''\<rparr>
   \<and> alertCooldown = 86400000
   \<and> clockGuard (exampleEnv 3601001 102) - 1001 = 3600000
   \<and> stressLevel (analyzeWithRules exampleSamples) = ''severe''
   \<and> shouldSendAlert (exampleEnv 3601001 102)
        (snd (analyzeFarmAndAlert (exampleEnv 1000 101) (exampleSystem exampleSamples)
               (IdString exampleFarmId)))
        (IdString exampleFarmId) (analyzeWithRules exampleSamples)
   \<and> fst (analyzeFarmAndAlert (exampleEnv 3601001 102)
        (snd (analyzeFarmAndAlert (exampleEnv 1000 101) (exampleSystem exampleSamples)
               (IdString exampleFarmId)))
        (IdString exampleFarmId))
       = AlertBranch (analyzeWithRules exampleSamples)
           (generateStressForecast 0 (\<lambda>i. 0.5) exampleSamples 14) True (Some ''sid-1'')
   \<and> smsLog (snd (analyzeFarmAndAlert (exampleEnv 3601001 102)
        (snd (analyzeFarmAndAlert (exampleEnv 1000 101) (exampleSystem exampleSamples)
               (IdString exampleFarmId)))
        (IdString exampleFarmId)))
       = [(''+621234567890'', ''FarmSight Alert'', ''urgent''),
          (''+621234567890'', ''FarmSight Alert'', ''urgent'')]"
proof -
  let ?s0 = "exampleSystem exampleSamples"
  let ?id = "IdString exampleFarmId"
  let ?s1 = "snd (analyzeFarmAndAlert (exampleEnv 1000 101) ?s0 ?id)"
  let ?m = "(''+621234567890'', ''FarmSight Alert'', ''urgent'')"
  have empty: "dom (stressCache ?s0) = {}" by (simp add: exampleSystem_facts)
  then have inv0: "\<forall>k \<in> dom (stressCache ?s0). \<exists>r v. k = IdObject r v" by simp
  have s1: "?s1 = ?s0\<lparr>smsLog := [?m],
      stressCache := [IdObject 101 exampleFarmId \<mapsto>
        \<lparr>ce_timestamp = 1001, ce_stressLevel = ''severe'', ce_messageId = Some ''sid-1''\<rparr>]\<rparr>"
    by (simp add: example_first_call)
  have log1: "smsLog ?s1 = [?m]" by (simp add: s1)
  have cache1: "stressCache ?s1 (IdObject 101 exampleFarmId)
      = Some \<lparr>ce_timestamp = 1001, ce_stressLevel = ''severe'', ce_messageId = Some ''sid-1''\<rparr>"
    by (simp add: s1)
  have inv1: "\<forall>k \<in> dom (stressCache ?s1). \<exists>r v. k = IdObject r v"
    using C4_cooldown_lookup_never_hits [OF inv0, of "exampleEnv 1000 101" ?id]
    by (rule conjunct1)
  have guard2: "shouldSendAlert (exampleEnv 3601001 102) ?s1 ?id (analyzeWithRules exampleSamples)"
    using C4_cooldown_lookup_never_hits [OF inv1, of "exampleEnv 1000 101" ?id
        "exampleEnv 3601001 102" exampleFarmId "analyzeWithRules exampleSamples"]
    by (simp add: exampleSamples_rules)
  have miss: "stressCache ?s1 ?id = None" using inv1 by (rule string_key_uncached)
  have f1: "farms ?s1 exampleFarmId = Some exampleFarm"
    "users ?s1 exampleUserId = Some exampleUser"
    by (simp_all add: s1 exampleSystem_facts)
  have n1: "findNDVI ?s1 ?id = exampleSamples"
    using exampleSamples_found by (simp add: s1 findNDVI_def)
  note second = example_call [OF f1 n1 miss, of 3601001 102]
  have out2: "fst (analyzeFarmAndAlert (exampleEnv 3601001 102) ?s1 ?id)
      = AlertBranch (analyzeWithRules exampleSamples)
          (generateStressForecast 0 (\<lambda>i. 0.5) exampleSamples 14) True (Some ''sid-1'')"
    by (simp only: second fst_conv)
  have "smsLog (snd (analyzeFarmAndAlert (exampleEnv 3601001 102) ?s1 ?id)) = smsLog ?s1 @ [?m]"
    by (simp only: second snd_conv) simp
  then have log2: "smsLog (snd (analyzeFarmAndAlert (exampleEnv 3601001 102) ?s1 ?id)) = [?m, ?m]"
    by (simp only: log1) simp
  have cool: "alertCooldown = 86400000" by (simp add: alertCooldown_def)
  have gap: "clockGuard (exampleEnv 3601001 102) - 1001 = 3600000" by (simp add: exampleEnv_def)
  have sev: "stressLevel (analyzeWithRules exampleSamples) = ''severe''"
    by (rule exampleSamples_rules)
  from empty log1 cache1 cool gap sev guard2 out2 log2 show ?thesis by (intro conjI)
qed



end
